theory Spec2Isabelle
  imports Complex_Main "HOL-Library.Sublist" "HOL-Library.AList"
begin

section \<open>Python strings\<close>

text \<open>
  Strings are lists of characters. Python's \<open>str\<close> works on Unicode code points; the model
  covers the ASCII range: \<open>lower\<close> and \<open>title\<close> change the letters A-Z and a-z only, and
  the whitespace of \<open>split\<close> and \<open>strip\<close> is the ASCII whitespace of Python
  (tab, line feed, vertical tab, form feed, carriage return, the separators 0x1C-0x1F, space).
\<close>

definition upper_letters :: string where
  "upper_letters = ''ABCDEFGHIJKLMNOPQRSTUVWXYZ''"

definition lower_letters :: string where
  "lower_letters = ''abcdefghijklmnopqrstuvwxyz''"

definition lower_char :: "char \<Rightarrow> char" where
  "lower_char c = (case map_of (zip upper_letters lower_letters) c of Some l \<Rightarrow> l | None \<Rightarrow> c)"

definition upper_char :: "char \<Rightarrow> char" where
  "upper_char c = (case map_of (zip lower_letters upper_letters) c of Some u \<Rightarrow> u | None \<Rightarrow> c)"

definition is_cased :: "char \<Rightarrow> bool" where
  "is_cased c = (c \<in> set upper_letters \<or> c \<in> set lower_letters)"

text \<open>\<open>s.lower()\<close>\<close>

definition lower :: "string \<Rightarrow> string" where
  "lower s = map lower_char s"

text \<open>
  \<open>s.title()\<close>: a cased character that follows an uncased one (or starts the string) is
  upper-cased, every other cased character is lower-cased.
\<close>

primrec title_from :: "bool \<Rightarrow> string \<Rightarrow> string" where
  "title_from prev [] = []"
| "title_from prev (c # s) =
     (if is_cased c then (if prev then lower_char c else upper_char c) # title_from True s
      else c # title_from False s)"

definition py_title :: "string \<Rightarrow> string" where
  "py_title s = title_from False s"

definition is_space :: "char \<Rightarrow> bool" where
  "is_space c = (c \<in> set [CHR 0x09, CHR 0x0A, CHR 0x0B, CHR 0x0C, CHR 0x0D,
                            CHR 0x1C, CHR 0x1D, CHR 0x1E, CHR 0x1F, CHR '' ''])"

text \<open>\<open>s.split()\<close>: the maximal runs of non-whitespace characters, in order.\<close>

primrec split_from :: "string \<Rightarrow> string \<Rightarrow> string list" where
  "split_from cur [] = (if cur = [] then [] else [rev cur])"
| "split_from cur (c # s) =
     (if is_space c then (if cur = [] then split_from [] s else rev cur # split_from [] s)
      else split_from (c # cur) s)"

definition split :: "string \<Rightarrow> string list" where
  "split s = split_from [] s"

text \<open>\<open>s.strip()\<close>\<close>

definition strip :: "string \<Rightarrow> string" where
  "strip s = rev (dropWhile is_space (rev (dropWhile is_space s)))"

text \<open>\<open>w in s\<close> for strings: \<open>w\<close> occurs in \<open>s\<close> as a contiguous substring.\<close>

primrec contains :: "string \<Rightarrow> string \<Rightarrow> bool" where
  "contains [] w = (w = [])"
| "contains (c # s) w = (prefix w (c # s) \<or> contains s w)"

text \<open>
  \<open>s.count(w)\<close>: the number of non-overlapping occurrences of \<open>w\<close> in \<open>s\<close>, scanning from
  the left. After a match the scan resumes behind it: \<open>skip\<close> is the number of characters
  of the last match still to be passed over. The empty string is counted once at every
  position, as Python does.
\<close>

primrec count_from :: "nat \<Rightarrow> string \<Rightarrow> string \<Rightarrow> nat" where
  "count_from skip [] w = (if skip = 0 \<and> w = [] then 1 else 0)"
| "count_from skip (c # s) w =
     (if 0 < skip then count_from (skip - 1) s w
      else if prefix w (c # s) then 1 + count_from (length w - 1) s w
      else count_from 0 s w)"

definition count :: "string \<Rightarrow> string \<Rightarrow> nat" where
  "count s w = count_from 0 s w"

text \<open>
  Python's slice \<open>xs[:n]\<close>: the first \<open>n\<close> elements, and for a negative \<open>n\<close> all but the
  last \<open>-n\<close>.
\<close>

definition slice_to :: "int \<Rightarrow> 'a list \<Rightarrow> 'a list" where
  "slice_to n xs = (if 0 \<le> n then take (nat n) xs else take (length xs - nat (- n)) xs)"

text \<open>\<open>str(n)\<close> for a natural number, in decimal.\<close>

definition digit_char :: "nat \<Rightarrow> char" where
  "digit_char d = ''0123456789'' ! (d mod 10)"

fun str_nat :: "nat \<Rightarrow> string" where
  "str_nat n = (if n < 10 then [digit_char n] else str_nat (n div 10) @ [digit_char n])"

declare str_nat.simps [simp del]

section \<open>Documents, exceptions and external services\<close>

text \<open>
  A document is a Python dict. The record has one field per key the search code reads or
  writes. A column of the \<open>documents\<close> table (or of a row returned by the similarity
  procedure) may be missing from the dict, be \<open>None\<close>, or hold a string; the keys the
  search code computes itself are either missing or hold a number or a string. Every row
  has an \<open>id\<close>, and \<open>similarity\<close> is a number when it is there. Python's floats are
  modelled as real numbers.
\<close>

datatype 'a field = Absent | Null | Val 'a

record doc =
  doc_id :: string
  document_type :: "string field"
  title :: "string field"
  description :: "string field"
  filename :: "string field"
  ocr_status :: "string field"
  ocr_text :: "string field"
  similarity :: "real option"
  relevance_score :: "int option"
  semantic_score :: "real option"
  keyword_score :: "int option"
  combined_score :: "real option"
  search_type :: "string option"

text \<open>
  \<open>d.get(k)\<close> and \<open>d.get(k, default)\<close>. A Python value that is a string or \<open>None\<close> is a
  \<open>string option\<close>; \<open>fmt\<close> is its rendering inside an f-string, \<open>truthy\<close> its truth value.
\<close>

definition get :: "'a field \<Rightarrow> 'a option" where
  "get f = (case f of Absent \<Rightarrow> None | Null \<Rightarrow> None | Val v \<Rightarrow> Some v)"

definition get_or :: "'a field \<Rightarrow> 'a option \<Rightarrow> 'a option" where
  "get_or f dflt = (case f of Absent \<Rightarrow> dflt | Null \<Rightarrow> None | Val v \<Rightarrow> Some v)"

definition fmt :: "string option \<Rightarrow> string" where
  "fmt v = (case v of None \<Rightarrow> ''None'' | Some s \<Rightarrow> s)"

definition truthy :: "string option \<Rightarrow> bool" where
  "truthy v = (case v of None \<Rightarrow> False | Some s \<Rightarrow> s \<noteq> [])"

text \<open>
  Exceptions. \<open>HTTPException c d None\<close> carries the status code \<open>c\<close> and the detail \<open>d\<close>;
  \<open>HTTPException c d (Some e)\<close> is the one raised with detail \<open>f"{d}{str(e)}"\<close> in a
  handler that caught \<open>e\<close>. \<open>OpenAIError\<close> stands for the exception types of the
  \<open>openai\<close> package, \<open>APIError\<close> for those of the database client.
\<close>

datatype exn =
    HTTPException nat string "exn option"
  | OpenAIError string
  | APIError string
  | TypeError
  | AttributeError

text \<open>
  The prompt sent to the completion service is a fixed template with two holes, the
  context built from the documents and the user's question; the system message is fixed.
  The model keeps the two holes.
\<close>

record prompt =
  p_context :: string
  p_question :: string

text \<open>
  The external services: the \<open>users\<close> and \<open>documents\<close> tables, the embedding model, the
  \<open>match_documents\<close> procedure and the chat completion. Each answers a request with a
  value or raises. They are functions of the request, so that a repeated request has the
  same answer.
\<close>

record world =
  users_select :: "string \<Rightarrow> exn + string list"
  documents_select :: "string \<Rightarrow> exn + doc list"
  embeddings_create :: "string \<Rightarrow> exn + real list"
  match_documents :: "real list \<Rightarrow> real \<Rightarrow> int \<Rightarrow> string \<Rightarrow> exn + doc list"
  chat_completions_create :: "prompt \<Rightarrow> exn + string"

datatype call =
    UsersSelect string
  | DocumentsSelect string
  | EmbeddingsCreate string
  | MatchDocuments "real list" real int string
  | ChatCompletionsCreate prompt

text \<open>
  A computation yields the external calls it made, in order, and a value or the exception
  it raised.
\<close>

type_synonym 'a io = "call list \<times> (exn + 'a)"

definition io_return :: "'a \<Rightarrow> 'a io" where
  "io_return x = ([], Inr x)"

definition io_raise :: "exn \<Rightarrow> 'a io" where
  "io_raise e = ([], Inl e)"

definition external :: "call \<Rightarrow> exn + 'a \<Rightarrow> 'a io" where
  "external c r = ([c], r)"

definition io_bind :: "'a io \<Rightarrow> ('a \<Rightarrow> 'b io) \<Rightarrow> 'b io" where
  "io_bind m f =
     (case m of
        (t, Inl e) \<Rightarrow> (t, Inl e)
      | (t, Inr x) \<Rightarrow> (case f x of (t', r) \<Rightarrow> (t @ t', r)))"

text \<open>\<open>try: m except Exception as e: h e\<close>\<close>

definition io_catch :: "'a io \<Rightarrow> (exn \<Rightarrow> 'a io) \<Rightarrow> 'a io" where
  "io_catch m h =
     (case m of
        (t, Inl e) \<Rightarrow> (case h e of (t', r) \<Rightarrow> (t @ t', r))
      | (t, Inr x) \<Rightarrow> (t, Inr x))"

definition is_HTTPException :: "exn \<Rightarrow> bool" where
  "is_HTTPException e = (case e of HTTPException _ _ _ \<Rightarrow> True | _ \<Rightarrow> False)"

section \<open>SearchService.search_documents\<close>

text \<open>The text of a document that the keyword search looks at.\<close>

definition searchable_content :: "doc \<Rightarrow> string" where
  "searchable_content d =
     (if get (document_type d) = Some ''note''
      then lower (fmt (get_or (title d) (Some [])) @ '' '' @ fmt (get_or (description d) (Some [])))
      else if get (ocr_status d) = Some ''completed'' \<and> truthy (get (ocr_text d))
      then lower (fmt (get (ocr_text d)))
      else [])"

text \<open>The loop over the query words.\<close>

definition relevance :: "string \<Rightarrow> string list \<Rightarrow> int" where
  "relevance content query_words =
     fold (\<lambda>word score. if contains content word then score + int (count content word) else score)
       query_words 0"

definition match_document :: "string \<Rightarrow> doc \<Rightarrow> doc list" where
  "match_document query_lower d =
     (let content = searchable_content d in
      if content \<noteq> [] then
        (let score = relevance content (split query_lower) in
         if 0 < score then [d\<lparr>relevance_score := Some score\<rparr>] else [])
      else [])"

definition matching_documents :: "string \<Rightarrow> doc list \<Rightarrow> doc list" where
  "matching_documents query rows = concat (map (match_document (lower query)) rows)"

text \<open>
  \<open>x['relevance_score']\<close> as the sort key: every matching document had the key assigned
  just before it was appended. Python's sort is stable, also with \<open>reverse=True\<close>.
\<close>

definition relevance_key :: "doc \<Rightarrow> int" where
  "relevance_key d = (case relevance_score d of Some k \<Rightarrow> k | None \<Rightarrow> 0)"

definition sort_by_relevance :: "doc list \<Rightarrow> doc list" where
  "sort_by_relevance ds = sort_key (\<lambda>d. - relevance_key d) ds"

definition search_documents :: "world \<Rightarrow> string \<Rightarrow> string \<Rightarrow> int \<Rightarrow> doc list io" where
  "search_documents w user_email query limit =
     io_catch
       (io_bind (external (UsersSelect user_email) (users_select w user_email)) (\<lambda>users.
          case users of
            [] \<Rightarrow> io_return []
          | user_id # _ \<Rightarrow>
              io_bind (external (DocumentsSelect user_id) (documents_select w user_id)) (\<lambda>rows.
                if rows = [] then io_return []
                else io_return (slice_to limit (sort_by_relevance (matching_documents query rows))))))
       (\<lambda>e. io_raise (HTTPException 500 ''Search failed: '' (Some e)))"

section \<open>EmbeddingService.generate_embedding\<close>

definition generate_embedding :: "world \<Rightarrow> string \<Rightarrow> real list io" where
  "generate_embedding w text =
     io_catch
       (let cleaned_text = strip text;
            cleaned_text = (if 6000 < length cleaned_text then take 6000 cleaned_text @ ''...''
                            else cleaned_text)
        in external (EmbeddingsCreate cleaned_text) (embeddings_create w cleaned_text))
       (\<lambda>e. io_raise (HTTPException 500 ''Failed to generate embedding: '' (Some e)))"

section \<open>SemanticSearchService: the three retrieval strategies\<close>

definition get_user_id_from_email :: "world \<Rightarrow> string \<Rightarrow> string io" where
  "get_user_id_from_email w user_email =
     io_catch
       (io_bind (external (UsersSelect user_email) (users_select w user_email)) (\<lambda>users.
          case users of
            [] \<Rightarrow> io_raise (HTTPException 404 ''User not found'' None)
          | user_id # _ \<Rightarrow> io_return user_id))
       (\<lambda>e. if is_HTTPException e then io_raise e
            else io_raise (HTTPException 500 ''Error fetching user: '' (Some e)))"

text \<open>\<open>semantic_search\<close> with its fourth parameter, and with the default \<open>threshold = 0.2\<close>.\<close>

definition semantic_search_threshold ::
  "world \<Rightarrow> string \<Rightarrow> string \<Rightarrow> int \<Rightarrow> real \<Rightarrow> doc list io" where
  "semantic_search_threshold w user_email query limit threshold =
     io_catch
       (io_bind (get_user_id_from_email w user_email) (\<lambda>user_id.
        io_bind (generate_embedding w query) (\<lambda>query_embedding.
          external (MatchDocuments query_embedding threshold limit user_id)
            (match_documents w query_embedding threshold limit user_id))))
       (\<lambda>e. if is_HTTPException e then io_raise e
            else io_raise (HTTPException 500 ''Semantic search failed: '' (Some e)))"

definition semantic_search :: "world \<Rightarrow> string \<Rightarrow> string \<Rightarrow> int \<Rightarrow> doc list io" where
  "semantic_search w user_email query limit =
     semantic_search_threshold w user_email query limit 0.2"

definition keyword_search :: "world \<Rightarrow> string \<Rightarrow> string \<Rightarrow> int \<Rightarrow> doc list io" where
  "keyword_search w user_email query limit =
     io_catch (search_documents w user_email query limit)
       (\<lambda>e. io_raise (HTTPException 500 ''Keyword search failed: '' (Some e)))"

subsection \<open>The fusion of \<open>hybrid_search\<close>\<close>

text \<open>
  \<open>combined_results\<close> is a dict keyed by document id. A dict keeps its keys in the order of
  their first insertion and an assignment to a key that is there replaces the value in
  place: an association list under \<open>AList.update\<close>.
\<close>

definition add_semantic :: "doc \<Rightarrow> (string \<times> doc) list \<Rightarrow> (string \<times> doc) list" where
  "add_semantic d combined_results =
     AList.update (doc_id d)
       (d\<lparr>semantic_score := Some (case similarity d of Some s \<Rightarrow> s | None \<Rightarrow> 0),
          keyword_score := Some 0,
          search_type := Some ''semantic''\<rparr>)
       combined_results"

definition add_keyword :: "doc \<Rightarrow> (string \<times> doc) list \<Rightarrow> (string \<times> doc) list" where
  "add_keyword d combined_results =
     (let score = (case relevance_score d of Some k \<Rightarrow> k | None \<Rightarrow> 0) in
      case map_of combined_results (doc_id d) of
        Some found \<Rightarrow>
          AList.update (doc_id d)
            (found\<lparr>keyword_score := Some score, search_type := Some ''hybrid''\<rparr>)
            combined_results
      | None \<Rightarrow>
          AList.update (doc_id d)
            (d\<lparr>semantic_score := Some 0, keyword_score := Some score,
               search_type := Some ''keyword''\<rparr>)
            combined_results)"

definition merge_results :: "doc list \<Rightarrow> doc list \<Rightarrow> (string \<times> doc) list" where
  "merge_results semantic_results keyword_results =
     fold add_keyword keyword_results (fold add_semantic semantic_results [])"

text \<open>
  \<open>min(doc['keyword_score'] / 100, 1.0) if doc['keyword_score'] > 0 else 0\<close>
\<close>

definition normalized_keyword :: "int \<Rightarrow> real" where
  "normalized_keyword score = (if 0 < score then min (real_of_int score / 100) 1 else 0)"

text \<open>
  The subscripts \<open>doc['semantic_score']\<close>, \<open>doc['keyword_score']\<close> and
  \<open>x['combined_score']\<close> read keys that both loops and the scoring loop have assigned in
  every entry (lemma \<open>merge_results_keys\<close> below).
\<close>

definition semantic_score_of :: "doc \<Rightarrow> real" where
  "semantic_score_of d = (case semantic_score d of Some s \<Rightarrow> s | None \<Rightarrow> 0)"

definition keyword_score_of :: "doc \<Rightarrow> int" where
  "keyword_score_of d = (case keyword_score d of Some k \<Rightarrow> k | None \<Rightarrow> 0)"

definition combined_score_of :: "doc \<Rightarrow> real" where
  "combined_score_of d = (case combined_score d of Some c \<Rightarrow> c | None \<Rightarrow> 0)"

definition add_combined_score :: "doc \<Rightarrow> doc" where
  "add_combined_score d =
     (let semantic_weight = 0.7;
          keyword_weight = 0.3;
          normalized_semantic = semantic_score_of d;
          normalized_kw = normalized_keyword (keyword_score_of d)
      in d\<lparr>combined_score :=
              Some (semantic_weight * normalized_semantic + keyword_weight * normalized_kw)\<rparr>)"

definition sort_by_combined :: "doc list \<Rightarrow> doc list" where
  "sort_by_combined ds = sort_key (\<lambda>d. - combined_score_of d) ds"

definition fuse :: "doc list \<Rightarrow> doc list \<Rightarrow> int \<Rightarrow> doc list" where
  "fuse semantic_results keyword_results limit =
     slice_to limit
       (sort_by_combined
          (map (\<lambda>(k, d). add_combined_score d) (merge_results semantic_results keyword_results)))"

definition hybrid_search :: "world \<Rightarrow> string \<Rightarrow> string \<Rightarrow> int \<Rightarrow> doc list io" where
  "hybrid_search w user_email query limit =
     io_catch
       (io_bind (semantic_search w user_email query limit) (\<lambda>semantic_results.
        io_bind (keyword_search w user_email query limit) (\<lambda>keyword_results.
          io_return (fuse semantic_results keyword_results limit))))
       (\<lambda>e. keyword_search w user_email query limit)"

section \<open>SearchService.generate_ai_response\<close>

definition no_documents_message :: string where
  "no_documents_message =
     ''I couldn't find any relevant documents or notes to answer your question. '' @
     ''Please make sure you have uploaded documents with OCR processing completed '' @
     ''or created some notes.''"

text \<open>
  \<open>content[:1000] + "..." if len(content) > 1000 else content\<close>; \<open>len(None)\<close> raises
  \<open>TypeError\<close>.
\<close>

definition limit_content :: "nat \<Rightarrow> string option \<Rightarrow> exn + string" where
  "limit_content n content =
     (case content of
        None \<Rightarrow> Inl TypeError
      | Some s \<Rightarrow> Inr (if n < length s then take n s @ ''...'' else s))"

text \<open>
  The label of a context part, \<open>f"{doc_type.title()} {i+1} ({title})"\<close>, and the text under
  it. \<open>doc_type.title()\<close> raises \<open>AttributeError\<close> when the document type is \<open>None\<close>; by
  then the content has been read and limited.
\<close>

definition context_title :: "nat \<Rightarrow> doc \<Rightarrow> string option" where
  "context_title i d =
     (if truthy (get (title d)) then get (title d)
      else get_or (filename d) (Some (''Document '' @ str_nat (i + 1))))"

definition context_content :: "doc \<Rightarrow> string option" where
  "context_content d =
     (if get_or (document_type d) (Some ''document'') = Some ''note''
      then get_or (description d) (Some [])
      else get_or (ocr_text d) (Some []))"

definition context_label :: "nat \<Rightarrow> doc \<Rightarrow> string \<Rightarrow> string" where
  "context_label i d doc_type =
     py_title doc_type @ '' '' @ str_nat (i + 1) @ '' ('' @ fmt (context_title i d) @ '')''"

definition context_part :: "nat \<Rightarrow> doc \<Rightarrow> exn + string" where
  "context_part i d =
     (case limit_content 1000 (context_content d) of
        Inl e \<Rightarrow> Inl e
      | Inr limited_content \<Rightarrow>
          (case get_or (document_type d) (Some ''document'') of
             None \<Rightarrow> Inl AttributeError
           | Some doc_type \<Rightarrow>
               Inr (context_label i d doc_type @ '':'' @ [CHR 0x0A] @ limited_content)))"

text \<open>The loop over \<open>enumerate(documents[:3])\<close>; the first exception ends it.\<close>

fun context_parts :: "nat \<Rightarrow> doc list \<Rightarrow> exn + string list" where
  "context_parts i [] = Inr []"
| "context_parts i (d # ds) =
     (case context_part i d of
        Inl e \<Rightarrow> Inl e
      | Inr part \<Rightarrow>
          (case context_parts (i + 1) ds of
             Inl e \<Rightarrow> Inl e
           | Inr parts \<Rightarrow> Inr (part # parts)))"

text \<open>\<open>sep.join(parts)\<close>\<close>

fun join :: "string \<Rightarrow> string list \<Rightarrow> string" where
  "join sep [] = []"
| "join sep [p] = p"
| "join sep (p # ps) = p @ sep @ join sep ps"

definition is_openai_error :: "exn \<Rightarrow> bool" where
  "is_openai_error e = (case e of OpenAIError _ \<Rightarrow> True | _ \<Rightarrow> False)"

definition generate_ai_response :: "world \<Rightarrow> string \<Rightarrow> doc list \<Rightarrow> string io" where
  "generate_ai_response w query documents =
     io_catch
       (if documents = [] then io_return no_documents_message
        else
          io_bind ([], context_parts 0 (take 3 documents)) (\<lambda>parts.
            let context = join [CHR 0x0A, CHR 0x0A] parts;
                p = \<lparr>p_context = context, p_question = query\<rparr>
            in io_bind (external (ChatCompletionsCreate p) (chat_completions_create w p)) (\<lambda>content.
                 io_return (strip content))))
       (\<lambda>e. if is_openai_error e
            then io_raise (HTTPException 500 ''OpenAI API error: '' (Some e))
            else io_raise (HTTPException 500 ''AI response generation failed: '' (Some e)))"

section \<open>SemanticSearchService.search_and_respond\<close>

definition get_document_preview :: "doc \<Rightarrow> exn + string" where
  "get_document_preview d =
     (if get (document_type d) = Some ''note''
      then limit_content 200 (get_or (description d) (Some []))
      else limit_content 200 (get_or (ocr_text d) (Some [])))"

text \<open>One entry of \<open>relevant_documents\<close>.\<close>

record summary =
  s_id :: string
  s_title :: "string option"
  s_document_type :: "string option"
  s_filename :: "string option"
  s_semantic_score :: real
  s_keyword_score :: int
  s_combined_score :: real
  s_search_type :: string
  s_preview :: string

text \<open>
  \<open>doc.get("combined_score", doc.get("similarity", doc.get("relevance_score", 0)))\<close>
\<close>

definition reported_combined_score :: "doc \<Rightarrow> real" where
  "reported_combined_score d =
     (case combined_score d of
        Some c \<Rightarrow> c
      | None \<Rightarrow>
          (case similarity d of
             Some s \<Rightarrow> s
           | None \<Rightarrow> (case relevance_score d of Some k \<Rightarrow> real_of_int k | None \<Rightarrow> 0)))"

definition summarize :: "doc \<Rightarrow> exn + summary" where
  "summarize d =
     (case get_document_preview d of
        Inl e \<Rightarrow> Inl e
      | Inr preview \<Rightarrow>
          Inr \<lparr>s_id = doc_id d,
               s_title = (if truthy (get (title d)) then get (title d)
                          else get_or (filename d) (Some ''Untitled'')),
               s_document_type = get_or (document_type d) (Some ''unknown''),
               s_filename = get (filename d),
               s_semantic_score = (case semantic_score d of Some s \<Rightarrow> s | None \<Rightarrow> 0),
               s_keyword_score = (case keyword_score d of Some k \<Rightarrow> k | None \<Rightarrow> 0),
               s_combined_score = reported_combined_score d,
               s_search_type = (case search_type d of Some t \<Rightarrow> t | None \<Rightarrow> ''unknown''),
               s_preview = preview\<rparr>)"

fun summaries :: "doc list \<Rightarrow> exn + summary list" where
  "summaries [] = Inr []"
| "summaries (d # ds) =
     (case summarize d of
        Inl e \<Rightarrow> Inl e
      | Inr s \<Rightarrow> (case summaries ds of Inl e \<Rightarrow> Inl e | Inr ss \<Rightarrow> Inr (s # ss)))"

record search_response =
  r_query :: string
  r_search_type :: string
  r_documents_found :: nat
  r_relevant_documents :: "summary list"
  r_ai_response :: string

text \<open>The choice of the search method, by \<open>search_type\<close>.\<close>

definition choose_search :: "world \<Rightarrow> string \<Rightarrow> string \<Rightarrow> int \<Rightarrow> string \<Rightarrow> doc list io" where
  "choose_search w user_email query limit stype =
     (if stype = ''semantic'' then semantic_search w user_email query limit
      else if stype = ''keyword'' then keyword_search w user_email query limit
      else hybrid_search w user_email query limit)"

definition search_and_respond ::
  "world \<Rightarrow> string \<Rightarrow> string \<Rightarrow> int \<Rightarrow> string \<Rightarrow> search_response io" where
  "search_and_respond w user_email query limit stype =
     io_catch
       (io_bind (choose_search w user_email query limit stype) (\<lambda>documents.
        io_bind (generate_ai_response w query documents) (\<lambda>ai_response.
        io_bind ([], summaries documents) (\<lambda>relevant.
          io_return \<lparr>r_query = query,
                     r_search_type = stype,
                     r_documents_found = length documents,
                     r_relevant_documents = relevant,
                     r_ai_response = ai_response\<rparr>))))
       (\<lambda>e. io_raise (HTTPException 500 ''Search and response failed: '' (Some e)))"

section \<open>The endpoints of \<open>api/documents.py\<close>\<close>

text \<open>
  \<open>GET /documents/search\<close>: \<open>limit\<close> defaults to 10 and \<open>search_type\<close> to \<open>hybrid\<close>; the
  parameters are passed on as they are.
\<close>

definition search_documents_get ::
  "world \<Rightarrow> string \<Rightarrow> string \<Rightarrow> int option \<Rightarrow> string option \<Rightarrow> search_response io" where
  "search_documents_get w current_user_email q limit stype =
     search_and_respond w current_user_email q
       (case limit of None \<Rightarrow> 10 | Some n \<Rightarrow> n)
       (case stype of None \<Rightarrow> ''hybrid'' | Some t \<Rightarrow> t)"

record search_comparison_response =
  c_query :: string
  c_semantic_search :: search_response
  c_keyword_search :: search_response
  c_hybrid_search :: search_response

text \<open>\<open>GET /documents/search/compare\<close>: \<open>limit\<close> defaults to 5.\<close>

definition compare_search_types ::
  "world \<Rightarrow> string \<Rightarrow> string \<Rightarrow> int option \<Rightarrow> search_comparison_response io" where
  "compare_search_types w current_user_email q limit =
     (let n = (case limit of None \<Rightarrow> 5 | Some n \<Rightarrow> n) in
      io_catch
        (io_bind (search_and_respond w current_user_email q n ''semantic'') (\<lambda>semantic_results.
         io_bind (search_and_respond w current_user_email q n ''keyword'') (\<lambda>keyword_results.
         io_bind (search_and_respond w current_user_email q n ''hybrid'') (\<lambda>hybrid_results.
           io_return \<lparr>c_query = q,
                      c_semantic_search = semantic_results,
                      c_keyword_search = keyword_results,
                      c_hybrid_search = hybrid_results\<rparr>))))
        (\<lambda>e. io_raise (HTTPException 500 ''Search comparison failed: '' (Some e))))"

section \<open>Definitions for the properties\<close>

text \<open>
  The lexical score as the specification words it: the sum, over the whitespace-delimited
  tokens of the (lower-cased) query, of the token's occurrence count in the text.
\<close>

definition lexical_score :: "string \<Rightarrow> string \<Rightarrow> int" where
  "lexical_score text query = (\<Sum>token\<leftarrow>split (lower query). int (count text token))"

text \<open>A call of the external completion function.\<close>

definition is_completion :: "call \<Rightarrow> bool" where
  "is_completion c = (case c of ChatCompletionsCreate _ \<Rightarrow> True | _ \<Rightarrow> False)"




text \<open>The similarity of a row, 0 when the row has none.\<close>

definition similarity_of :: "doc \<Rightarrow> real" where
  "similarity_of d = (case similarity d of Some s \<Rightarrow> s | None \<Rightarrow> 0)"

subsection \<open>Example data\<close>

definition budget_note :: doc where
  "budget_note =
     \<lparr>doc_id = ''n1'', document_type = Val ''note'', title = Val ''Budget Plan'',
      description = Val ''Q3 budget exceeds Q2 budget by 10 percent'', filename = Null,
      ocr_status = Val ''completed'', ocr_text = Null, similarity = None,
      relevance_score = None, semantic_score = None, keyword_score = None,
      combined_score = None, search_type = None\<rparr>"

text \<open>One user with one note; the embedding service and the similarity procedure are down.\<close>

definition semantic_down :: world where
  "semantic_down =
     \<lparr>users_select = (\<lambda>email. if email = ''ann@example.org'' then Inr [''u1''] else Inr []),
      documents_select = (\<lambda>user_id. if user_id = ''u1'' then Inr [budget_note] else Inr []),
      embeddings_create = (\<lambda>text. Inl (OpenAIError ''connection refused'')),
      match_documents = (\<lambda>v threshold n user_id. Inl (APIError ''connection refused'')),
      chat_completions_create = (\<lambda>p. Inr ''The budget grows by 10 percent.'')\<rparr>"

text \<open>The same user; the similarity procedure answers, with no row above the threshold.\<close>

definition semantic_empty :: world where
  "semantic_empty =
     \<lparr>users_select = (\<lambda>email. if email = ''ann@example.org'' then Inr [''u1''] else Inr []),
      documents_select = (\<lambda>user_id. if user_id = ''u1'' then Inr [budget_note] else Inr []),
      embeddings_create = (\<lambda>text. Inr [1, 0]),
      match_documents = (\<lambda>v threshold n user_id. Inr []),
      chat_completions_create = (\<lambda>p. Inr ''The budget grows by 10 percent.'')\<rparr>"

text \<open>The same user; the similarity procedure returns the note with similarity 0.5.\<close>

definition semantic_up :: world where
  "semantic_up =
     \<lparr>users_select = (\<lambda>email. if email = ''ann@example.org'' then Inr [''u1''] else Inr []),
      documents_select = (\<lambda>user_id. if user_id = ''u1'' then Inr [budget_note] else Inr []),
      embeddings_create = (\<lambda>text. Inr [1, 0]),
      match_documents = (\<lambda>v threshold n user_id. Inr [budget_note\<lparr>similarity := Some 0.5\<rparr>]),
      chat_completions_create = (\<lambda>p. Inr ''The budget grows by 10 percent.'')\<rparr>"

text \<open>
  A note whose title holds a full stop and whose description, 1001 letters long, holds none.
\<close>

definition dotted_note :: doc where
  "dotted_note =
     \<lparr>doc_id = ''n2'', document_type = Val ''note'', title = Val ''v1.0 Plan'',
      description = Val (replicate 1001 (CHR ''a'')), filename = Null,
      ocr_status = Val ''completed'', ocr_text = Null, similarity = None,
      relevance_score = None, semantic_score = None, keyword_score = None,
      combined_score = None, search_type = None\<rparr>"

section \<open>Auxiliary lemmas\<close>

lemmas io_defs = io_bind_def io_catch_def io_return_def io_raise_def external_def

lemmas string_defs =
  lower_def lower_char_def upper_char_def upper_letters_def lower_letters_def is_cased_def
  py_title_def split_def is_space_def strip_def count_def

lemmas field_defs = get_def get_or_def fmt_def truthy_def

lemmas search_defs =
  search_documents_def keyword_search_def semantic_search_def semantic_search_threshold_def
  get_user_id_from_email_def generate_embedding_def hybrid_search_def choose_search_def
  is_HTTPException_def slice_to_def sort_by_relevance_def matching_documents_def
  match_document_def searchable_content_def relevance_def

subsection \<open>The scoring loop and the ranking\<close>

lemma count_from_absent: "\<not> contains s w \<Longrightarrow> count_from k s w = 0"
  by (induction s arbitrary: k) auto

lemma relevance_fold:
  "fold (\<lambda>word score. if contains c word then score + int (count c word) else score) ws a
     = a + (\<Sum>word\<leftarrow>ws. int (count c word))"
  by (induction ws arbitrary: a) (auto simp: count_def count_from_absent)

lemma relevance_lexical_score: "relevance c (split (lower q)) = lexical_score c q"
  by (simp add: relevance_def lexical_score_def relevance_fold)

lemma set_slice_to: "set (slice_to n xs) \<subseteq> set xs"
  by (auto simp: slice_to_def dest: in_set_takeD)

lemma match_document_elem:
  assumes "d \<in> set (match_document (lower q) row)"
  shows "d = row\<lparr>relevance_score := Some (lexical_score (searchable_content row) q)\<rparr> \<and>
         0 < lexical_score (searchable_content row) q"
  using assms
  by (auto simp: match_document_def Let_def relevance_lexical_score split: if_splits)

lemma ranked_elem:
  assumes "d \<in> set (slice_to l (sort_by_relevance (matching_documents q rows)))"
  shows "\<exists>row\<in>set rows.
           d = row\<lparr>relevance_score := Some (lexical_score (searchable_content row) q)\<rparr> \<and>
           0 < lexical_score (searchable_content row) q"
proof -
  have "d \<in> set (sort_by_relevance (matching_documents q rows))"
    by (rule subsetD [OF set_slice_to assms])
  then have "d \<in> set (matching_documents q rows)"
    by (simp add: sort_by_relevance_def)
  then obtain row where r: "row \<in> set rows" and m: "d \<in> set (match_document (lower q) row)"
    by (auto simp: matching_documents_def)
  from match_document_elem [OF m] r show ?thesis by blast
qed

lemma search_documents_elem:
  assumes "search_documents w user_email query limit = (t, Inr results)"
    and "d \<in> set results"
  shows "\<exists>user_id others rows row.
           users_select w user_email = Inr (user_id # others) \<and>
           documents_select w user_id = Inr rows \<and> row \<in> set rows \<and>
           d = row\<lparr>relevance_score := Some (lexical_score (searchable_content row) query)\<rparr> \<and>
           0 < lexical_score (searchable_content row) query"
proof (cases "users_select w user_email")
  case (Inl e)
  with assms show ?thesis by (simp add: search_documents_def io_defs)
next
  case (Inr users)
  show ?thesis
  proof (cases users)
    case Nil
    with Inr assms show ?thesis by (simp add: search_documents_def io_defs)
  next
    case (Cons user_id others)
    show ?thesis
    proof (cases "documents_select w user_id")
      case (Inl e)
      with Inr Cons assms show ?thesis by (simp add: search_documents_def io_defs)
    next
      case rows: (Inr rows)
      with Inr Cons assms
      have "d \<in> set (slice_to limit (sort_by_relevance (matching_documents query rows)))"
        by (auto simp add: search_documents_def io_defs split: if_splits)
      from ranked_elem [OF this] Inr Cons rows show ?thesis by blast
    qed
  qed
qed

subsection \<open>Substrings and context parts\<close>

lemma contains_sublist: "contains s w = sublist w s"
  by (induction s) (simp_all add: sublist_Cons_right)

lemma contains_take: "contains (take n s) w \<Longrightarrow> contains s w"
  unfolding contains_sublist
  using sublist_order.order_trans [OF _ sublist_take] by blast

lemma lower_take: "lower (take n s) = take n (lower s)"
  by (simp add: lower_def take_map)

lemma contains_single: "contains s [c] = (c \<in> set s)"
  by (induction s) auto

lemma count_single_absent: "c \<notin> set s \<Longrightarrow> count_from k s [c] = 0"
  by (simp add: count_from_absent contains_single)

lemma context_parts_nth:
  assumes "context_parts i ds = Inr parts" and "k < length ds"
  shows "context_part (i + k) (ds ! k) = Inr (parts ! k)"
  using assms
proof (induction ds arbitrary: i parts k)
  case Nil
  then show ?case by simp
next
  case (Cons d ds)
  show ?case
  proof (cases k)
    case 0
    with Cons.prems show ?thesis by (auto split: sum.splits)
  next
    case (Suc n)
    with Cons.prems obtain rest
      where "context_parts (Suc i) ds = Inr rest" "parts ! k = rest ! n"
      by (auto split: sum.splits)
    with Cons.IH [of "Suc i" rest n] Cons.prems Suc show ?thesis by simp
  qed
qed

lemma note_context_part:
  assumes "context_part i d = Inr part" and "get (document_type d) = Some ''note''"
  shows "\<exists>s. get_or (description d) (Some []) = Some s \<and>
     part = context_label i d ''note'' @ '':'' @ [CHR 0x0A] @
            (if 1000 < length s then take 1000 s @ ''...'' else s)"
  using assms
  by (auto simp: context_part_def context_content_def limit_content_def get_def get_or_def
      split: option.splits sum.splits field.splits)

lemma generate_ai_response_call:
  assumes "documents \<noteq> []" and "context_parts 0 (take 3 documents) = Inr parts"
  shows "fst (generate_ai_response w query documents) =
     [ChatCompletionsCreate
        \<lparr>p_context = join [CHR 0x0A, CHR 0x0A] parts, p_question = query\<rparr>]"
  using assms
  by (auto simp: generate_ai_response_def io_defs Let_def split: sum.splits)

subsection \<open>The merging loops\<close>











lemma keyword_search_Inr:
  "keyword_search w e q l = (t, Inr kw) \<Longrightarrow> search_documents w e q l = (t, Inr kw)"
  by (cases "search_documents w e q l") (auto simp: keyword_search_def io_defs split: sum.splits)





subsection \<open>Responses\<close>

lemma summaries_combined:
  "summaries ds = Inr ss \<Longrightarrow> map s_combined_score ss = map reported_combined_score ds"
proof (induction ds arbitrary: ss)
  case Nil
  then show ?case by simp
next
  case (Cons d ds)
  then show ?case
    by (auto simp: summarize_def split: sum.splits)
qed

lemma search_and_respond_items:
  assumes "search_and_respond w e q l st = (t', Inr r)"
    and "choose_search w e q l st = (t, Inr docs)"
  shows "summaries docs = Inr (r_relevant_documents r)"
proof (cases "generate_ai_response w q docs")
  case (Pair ta res)
  with assms show ?thesis
    by (cases res; cases "summaries docs") (auto simp: search_and_respond_def io_defs)
qed

lemma io_bind_first: "fst m = c # t \<Longrightarrow> \<exists>t'. fst (io_bind m f) = c # t'"
  by (cases m) (auto simp: io_bind_def split: sum.splits prod.splits)

lemma io_catch_first: "fst m = c # t \<Longrightarrow> \<exists>t'. fst (io_catch m h) = c # t'"
  by (cases m) (auto simp: io_catch_def split: sum.splits prod.splits)

lemma get_user_id_first: "\<exists>t. fst (get_user_id_from_email w e) = UsersSelect e # t"
  unfolding get_user_id_from_email_def
  by (rule exE [OF io_bind_first [of "external (UsersSelect e) (users_select w e)" "UsersSelect e" "[]"]])
     (auto simp: external_def dest: io_catch_first)


lemma semantic_search_first: "\<exists>t. fst (semantic_search w e q l) = UsersSelect e # t"
proof -
  obtain t where "fst (get_user_id_from_email w e) = UsersSelect e # t"
    using get_user_id_first by blast
  from io_bind_first [OF this] obtain t' where
    "fst (io_bind (get_user_id_from_email w e) (\<lambda>user_id.
        io_bind (generate_embedding w q) (\<lambda>query_embedding.
          external (MatchDocuments query_embedding 0.2 l user_id)
            (match_documents w query_embedding 0.2 l user_id)))) = UsersSelect e # t'"
    by blast
  from io_catch_first [OF this] show ?thesis
    by (simp add: semantic_search_def semantic_search_threshold_def)
qed

lemma search_documents_first: "\<exists>t. fst (search_documents w e q l) = UsersSelect e # t"
proof -
  have "fst (external (UsersSelect e) (users_select w e) :: string list io) = UsersSelect e # []"
    by (simp add: external_def)
  from io_catch_first [OF io_bind_first [OF this, THEN exE]] show ?thesis
    unfolding search_documents_def by blast
qed

lemma choose_keyword: "choose_search w e q l ''keyword'' = keyword_search w e q l"
  by (simp add: choose_search_def)

lemma choose_semantic: "choose_search w e q l ''semantic'' = semantic_search w e q l"
  by (simp add: choose_search_def)

lemma keyword_reported:
  assumes k: "keyword_search w e q l = (t, Inr docs)"
    and rows: "\<forall>user_id rows. documents_select w user_id = Inr rows \<longrightarrow>
            (\<forall>row\<in>set rows. combined_score row = None \<and> similarity row = None)"
    and d: "d \<in> set docs"
  shows "reported_combined_score d = real_of_int (relevance_key d) \<and>
         (\<exists>row. relevance_score d = Some (lexical_score (searchable_content row) q))"
proof -
  from search_documents_elem [OF keyword_search_Inr [OF k] d]
  obtain user_id rs row where r: "documents_select w user_id = Inr rs" "row \<in> set rs"
    "d = row\<lparr>relevance_score := Some (lexical_score (searchable_content row) q)\<rparr>"
    by blast
  from rows r(1) r(2) have "combined_score row = None \<and> similarity row = None" by blast
  with r(3) show ?thesis
    by (auto simp: reported_combined_score_def relevance_key_def)
qed

subsection \<open>The first external call\<close>

lemma keyword_search_first: "\<exists>t. fst (keyword_search w e q l) = UsersSelect e # t"
proof -
  obtain t where "fst (search_documents w e q l) = UsersSelect e # t"
    using search_documents_first by blast
  from io_catch_first [OF this] show ?thesis by (simp add: keyword_search_def)
qed

lemma hybrid_search_first: "\<exists>t. fst (hybrid_search w e q l) = UsersSelect e # t"
proof -
  obtain t where "fst (semantic_search w e q l) = UsersSelect e # t"
    using semantic_search_first by blast
  from io_catch_first [OF io_bind_first [OF this, THEN exE]] show ?thesis
    unfolding hybrid_search_def by blast
qed

lemma choose_search_first: "\<exists>t. fst (choose_search w e q l st) = UsersSelect e # t"
  by (simp add: choose_search_def semantic_search_first keyword_search_first hybrid_search_first)

lemma search_and_respond_first: "\<exists>t. fst (search_and_respond w e q l st) = UsersSelect e # t"
proof -
  obtain t where "fst (choose_search w e q l st) = UsersSelect e # t"
    using choose_search_first by blast
  from io_catch_first [OF io_bind_first [OF this, THEN exE]] show ?thesis
    unfolding search_and_respond_def by blast
qed

lemma search_and_respond_error:
  assumes "snd (search_and_respond w e q l st) = Inl err"
  shows "\<exists>cause. err = HTTPException 500 ''Search and response failed: '' (Some cause)"
  using assms unfolding search_and_respond_def io_catch_def io_raise_def
  by (auto split: prod.splits sum.splits)


section \<open>The example searches\<close>


lemma semantic_down_semantic:
  "semantic_search semantic_down ''ann@example.org'' ''budget'' l =
     ([UsersSelect ''ann@example.org'', EmbeddingsCreate ''budget''],
      Inl (HTTPException 500 ''Failed to generate embedding: ''
             (Some (OpenAIError ''connection refused''))))"
  by (simp add: semantic_down_def search_defs io_defs string_defs)


lemma semantic_up_semantic:
  "semantic_search semantic_up ''ann@example.org'' ''budget'' l =
     ([UsersSelect ''ann@example.org'', EmbeddingsCreate ''budget'',
       MatchDocuments [1, 0] 0.2 l ''u1''],
      Inr [budget_note\<lparr>similarity := Some 0.5\<rparr>])"
  by (simp add: semantic_up_def search_defs io_defs string_defs)

lemma semantic_up_keyword:
  "keyword_search semantic_up ''ann@example.org'' ''budget'' 10 =
     ([UsersSelect ''ann@example.org'', DocumentsSelect ''u1''],
      Inr [budget_note\<lparr>relevance_score := Some 3\<rparr>])"
  by (simp add: semantic_up_def budget_note_def search_defs io_defs string_defs field_defs)


lemma semantic_down_keyword5:
  "keyword_search semantic_down ''ann@example.org'' ''budget'' 5 =
     ([UsersSelect ''ann@example.org'', DocumentsSelect ''u1''],
      Inr [budget_note\<lparr>relevance_score := Some 3\<rparr>])"
  by (simp add: semantic_down_def budget_note_def search_defs io_defs string_defs field_defs)

lemma semantic_down_hybrid:
  "hybrid_search semantic_down ''ann@example.org'' ''budget'' l =
     ([UsersSelect ''ann@example.org'', EmbeddingsCreate ''budget''] @
        fst (keyword_search semantic_down ''ann@example.org'' ''budget'' l),
      snd (keyword_search semantic_down ''ann@example.org'' ''budget'' l))"
  by (simp add: hybrid_search_def semantic_down_semantic io_defs split: prod.splits)

lemma budget_context:
  "context_part 0 (budget_note\<lparr>relevance_score := Some 3\<rparr>) =
     Inr (''Note 1 (Budget Plan):'' @ [CHR 0x0A] @ ''Q3 budget exceeds Q2 budget by 10 percent'')"
  by (simp add: budget_note_def context_part_def context_content_def context_label_def
      context_title_def limit_content_def field_defs string_defs str_nat.simps digit_char_def)

lemma budget_answer_down:
  "generate_ai_response semantic_down ''budget'' [budget_note\<lparr>relevance_score := Some 3\<rparr>] =
     ([ChatCompletionsCreate
         \<lparr>p_context = ''Note 1 (Budget Plan):'' @ [CHR 0x0A] @
                        ''Q3 budget exceeds Q2 budget by 10 percent'',
          p_question = ''budget''\<rparr>],
      Inr ''The budget grows by 10 percent.'')"
  by (simp add: generate_ai_response_def budget_context io_defs)
     (simp add: semantic_down_def strip_def is_space_def)

lemma budget_summary_keyword:
  "summarize (budget_note\<lparr>relevance_score := Some 3\<rparr>) =
     Inr \<lparr>s_id = ''n1'', s_title = Some ''Budget Plan'', s_document_type = Some ''note'',
           s_filename = None, s_semantic_score = 0, s_keyword_score = 0,
           s_combined_score = 3, s_search_type = ''unknown'',
           s_preview = ''Q3 budget exceeds Q2 budget by 10 percent''\<rparr>"
  by (simp add: budget_note_def summarize_def get_document_preview_def limit_content_def
      reported_combined_score_def field_defs)

lemma semantic_down_respond_keyword5:
  "search_and_respond semantic_down ''ann@example.org'' ''budget'' 5 ''keyword'' =
     ([UsersSelect ''ann@example.org'', DocumentsSelect ''u1'',
       ChatCompletionsCreate
         \<lparr>p_context = ''Note 1 (Budget Plan):'' @ [CHR 0x0A] @
                        ''Q3 budget exceeds Q2 budget by 10 percent'',
          p_question = ''budget''\<rparr>],
      Inr \<lparr>r_query = ''budget'', r_search_type = ''keyword'', r_documents_found = 1,
            r_relevant_documents =
              [\<lparr>s_id = ''n1'', s_title = Some ''Budget Plan'', s_document_type = Some ''note'',
                 s_filename = None, s_semantic_score = 0, s_keyword_score = 0,
                 s_combined_score = 3, s_search_type = ''unknown'',
                 s_preview = ''Q3 budget exceeds Q2 budget by 10 percent''\<rparr>],
            r_ai_response = ''The budget grows by 10 percent.''\<rparr>)"
  by (simp add: search_and_respond_def choose_keyword semantic_down_keyword5 budget_answer_down
      budget_summary_keyword io_defs)

lemma semantic_down_respond_semantic:
  "search_and_respond semantic_down ''ann@example.org'' ''budget'' l ''semantic'' =
     ([UsersSelect ''ann@example.org'', EmbeddingsCreate ''budget''],
      Inl (HTTPException 500 ''Search and response failed: ''
             (Some (HTTPException 500 ''Failed to generate embedding: ''
                      (Some (OpenAIError ''connection refused''))))))"
  by (simp add: search_and_respond_def choose_semantic semantic_down_semantic io_defs)

lemma semantic_down_respond_hybrid5:
  "search_and_respond semantic_down ''ann@example.org'' ''budget'' 5 ''hybrid'' =
     ([UsersSelect ''ann@example.org'', EmbeddingsCreate ''budget'',
       UsersSelect ''ann@example.org'', DocumentsSelect ''u1'',
       ChatCompletionsCreate
         \<lparr>p_context = ''Note 1 (Budget Plan):'' @ [CHR 0x0A] @
                        ''Q3 budget exceeds Q2 budget by 10 percent'',
          p_question = ''budget''\<rparr>],
      Inr \<lparr>r_query = ''budget'', r_search_type = ''hybrid'', r_documents_found = 1,
            r_relevant_documents =
              [\<lparr>s_id = ''n1'', s_title = Some ''Budget Plan'', s_document_type = Some ''note'',
                 s_filename = None, s_semantic_score = 0, s_keyword_score = 0,
                 s_combined_score = 3, s_search_type = ''unknown'',
                 s_preview = ''Q3 budget exceeds Q2 budget by 10 percent''\<rparr>],
            r_ai_response = ''The budget grows by 10 percent.''\<rparr>)"
  by (simp add: search_and_respond_def choose_search_def semantic_down_hybrid
      semantic_down_keyword5 budget_answer_down budget_summary_keyword io_defs)


lemma budget_answer_up:
  "generate_ai_response semantic_up ''budget'' [d] =
     (case context_part 0 d of
        Inl e \<Rightarrow> ([], Inl (HTTPException 500 ''AI response generation failed: '' (Some e)))
      | Inr part \<Rightarrow>
          ([ChatCompletionsCreate \<lparr>p_context = part, p_question = ''budget''\<rparr>],
           Inr ''The budget grows by 10 percent.''))"
  by (cases "context_part 0 d")
     (simp_all add: generate_ai_response_def io_defs semantic_up_def strip_def is_space_def
        is_openai_error_def context_part_def limit_content_def split: option.splits sum.splits)

lemma budget_context_similar:
  "context_part 0 (budget_note\<lparr>similarity := Some (1 / 2)\<rparr>) =
     Inr (''Note 1 (Budget Plan):'' @ [CHR 0x0A] @ ''Q3 budget exceeds Q2 budget by 10 percent'')"
  by (simp add: budget_note_def context_part_def context_content_def context_label_def
      context_title_def limit_content_def field_defs string_defs str_nat.simps digit_char_def)

lemma budget_summary_semantic:
  "summarize (budget_note\<lparr>similarity := Some (1 / 2)\<rparr>) =
     Inr \<lparr>s_id = ''n1'', s_title = Some ''Budget Plan'', s_document_type = Some ''note'',
           s_filename = None, s_semantic_score = 0, s_keyword_score = 0,
           s_combined_score = 1 / 2, s_search_type = ''unknown'',
           s_preview = ''Q3 budget exceeds Q2 budget by 10 percent''\<rparr>"
  by (simp add: budget_note_def summarize_def get_document_preview_def limit_content_def
      reported_combined_score_def field_defs)

lemma semantic_up_respond_keyword:
  "search_and_respond semantic_up ''ann@example.org'' ''budget'' 10 ''keyword'' =
     ([UsersSelect ''ann@example.org'', DocumentsSelect ''u1'',
       ChatCompletionsCreate
         \<lparr>p_context = ''Note 1 (Budget Plan):'' @ [CHR 0x0A] @
                        ''Q3 budget exceeds Q2 budget by 10 percent'',
          p_question = ''budget''\<rparr>],
      Inr \<lparr>r_query = ''budget'', r_search_type = ''keyword'', r_documents_found = 1,
            r_relevant_documents =
              [\<lparr>s_id = ''n1'', s_title = Some ''Budget Plan'', s_document_type = Some ''note'',
                 s_filename = None, s_semantic_score = 0, s_keyword_score = 0,
                 s_combined_score = 3, s_search_type = ''unknown'',
                 s_preview = ''Q3 budget exceeds Q2 budget by 10 percent''\<rparr>],
            r_ai_response = ''The budget grows by 10 percent.''\<rparr>)"
  by (simp add: search_and_respond_def choose_keyword semantic_up_keyword budget_answer_up
      budget_context budget_summary_keyword io_defs)

lemma semantic_up_respond_semantic:
  "search_and_respond semantic_up ''ann@example.org'' ''budget'' 10 ''semantic'' =
     ([UsersSelect ''ann@example.org'', EmbeddingsCreate ''budget'',
       MatchDocuments [1, 0] 0.2 10 ''u1'',
       ChatCompletionsCreate
         \<lparr>p_context = ''Note 1 (Budget Plan):'' @ [CHR 0x0A] @
                        ''Q3 budget exceeds Q2 budget by 10 percent'',
          p_question = ''budget''\<rparr>],
      Inr \<lparr>r_query = ''budget'', r_search_type = ''semantic'', r_documents_found = 1,
            r_relevant_documents =
              [\<lparr>s_id = ''n1'', s_title = Some ''Budget Plan'', s_document_type = Some ''note'',
                 s_filename = None, s_semantic_score = 0, s_keyword_score = 0,
                 s_combined_score = 0.5, s_search_type = ''unknown'',
                 s_preview = ''Q3 budget exceeds Q2 budget by 10 percent''\<rparr>],
            r_ai_response = ''The budget grows by 10 percent.''\<rparr>)"
  by (simp add: search_and_respond_def choose_semantic semantic_up_semantic budget_answer_up
      budget_context_similar budget_summary_semantic io_defs)

lemma semantic_up_rows:
  "\<forall>user_id rows. documents_select semantic_up user_id = Inr rows \<longrightarrow>
     (\<forall>row\<in>set rows. combined_score row = None \<and> similarity row = None)"
  by (auto simp: semantic_up_def budget_note_def split: if_splits)


section \<open>Properties\<close>

subsection \<open>The normalisation of the keyword score\<close>

text \<open>
  C8. The function from a raw lexical score to its normalised value is monotonically
  non-decreasing over the non-negative integers, and from a raw score of 100 on the
  normalised value is exactly 1.
\<close>

theorem normalized_keyword_monotone_saturating:
  "(0 \<le> a \<and> a \<le> b \<longrightarrow> normalized_keyword a \<le> normalized_keyword b) \<and>
   (100 \<le> a \<longrightarrow> normalized_keyword a = 1)"
  by (auto simp: normalized_keyword_def min_def divide_simps)

theorem normalized_keyword_monotone_saturating_witness:
  "(0::int) \<le> 100 \<and> (100::int) \<le> 150 \<and>
   normalized_keyword 100 \<le> normalized_keyword 150 \<and> normalized_keyword 100 = 1"
  using normalized_keyword_monotone_saturating [of 100 150] by simp

subsection \<open>The fallback of the hybrid search\<close>

text \<open>
  C3. If the semantic stage raises and the strategy is hybrid, the hybrid search returns
  exactly what the keyword search returns for the same owner, query and limit: it fails
  only where the keyword search fails.
\<close>

theorem hybrid_search_fallback:
  "semantic_search w user_email query limit = (t, Inl err) \<Longrightarrow>
   hybrid_search w user_email query limit =
     (t @ fst (keyword_search w user_email query limit),
      snd (keyword_search w user_email query limit))"
  by (simp add: hybrid_search_def io_defs split: prod.splits)

theorem hybrid_search_fallback_witness:
  "semantic_search semantic_down ''ann@example.org'' ''budget'' 10 =
     ([UsersSelect ''ann@example.org'', EmbeddingsCreate ''budget''],
      Inl (HTTPException 500 ''Failed to generate embedding: ''
             (Some (OpenAIError ''connection refused'')))) \<and>
   snd (keyword_search semantic_down ''ann@example.org'' ''budget'' 10) =
     Inr [budget_note\<lparr>relevance_score := Some 3\<rparr>] \<and>
   snd (hybrid_search semantic_down ''ann@example.org'' ''budget'' 10) =
     Inr [budget_note\<lparr>relevance_score := Some 3\<rparr>]"
proof -
  have s: "semantic_search semantic_down ''ann@example.org'' ''budget'' 10 =
     ([UsersSelect ''ann@example.org'', EmbeddingsCreate ''budget''],
      Inl (HTTPException 500 ''Failed to generate embedding: ''
             (Some (OpenAIError ''connection refused''))))"
    by (simp add: semantic_down_def search_defs io_defs string_defs)
  have k: "snd (keyword_search semantic_down ''ann@example.org'' ''budget'' 10) =
     Inr [budget_note\<lparr>relevance_score := Some 3\<rparr>]"
    by (simp add: semantic_down_def budget_note_def search_defs io_defs string_defs field_defs)
  show ?thesis
    using hybrid_search_fallback [OF s] s k by simp
qed

subsection \<open>An owner without a user record\<close>

text \<open>
  C9. When the \<open>users\<close> table has no row for the owner's email, the keyword search and the
  hybrid search both return the empty list (the hybrid search catches the not-found error
  of its semantic stage and falls back to the keyword search), and the semantic search
  raises the not-found error, for the same owner, query and limit.
\<close>

theorem unknown_owner:
  assumes "users_select w user_email = Inr []"
  shows "snd (keyword_search w user_email query limit) = Inr [] \<and>
         snd (hybrid_search w user_email query limit) = Inr [] \<and>
         snd (semantic_search w user_email query limit) =
           Inl (HTTPException 404 ''User not found'' None)"
  using assms by (simp add: search_defs io_defs)

theorem unknown_owner_witness:
  "users_select semantic_up ''bob@example.org'' = Inr [] \<and>
   snd (keyword_search semantic_up ''bob@example.org'' ''budget'' 10) = Inr [] \<and>
   snd (hybrid_search semantic_up ''bob@example.org'' ''budget'' 10) = Inr [] \<and>
   snd (semantic_search semantic_up ''bob@example.org'' ''budget'' 10) =
     Inl (HTTPException 404 ''User not found'' None)"
proof -
  have u: "users_select semantic_up ''bob@example.org'' = Inr []"
    by (simp add: semantic_up_def)
  show ?thesis
    using unknown_owner [OF u, of "''budget''" 10] u by simp
qed

subsection \<open>The answer when nothing was found\<close>

lemma generate_ai_response_empty:
  "generate_ai_response w query [] = ([], Inr no_documents_message)"
  by (simp add: generate_ai_response_def io_defs)

lemma search_documents_calls:
  "\<forall>c\<in>set (fst (search_documents w e q l)). \<not> is_completion c"
  by (auto simp add: search_documents_def io_defs is_completion_def
      split: sum.splits list.splits)

lemma keyword_search_calls:
  "\<forall>c\<in>set (fst (keyword_search w e q l)). \<not> is_completion c"
  using search_documents_calls [of w e q l]
  by (auto simp add: keyword_search_def io_defs split: sum.splits prod.splits)

lemma semantic_search_calls:
  "\<forall>c\<in>set (fst (semantic_search w e q l)). \<not> is_completion c"
  by (auto simp add: semantic_search_def semantic_search_threshold_def
      get_user_id_from_email_def generate_embedding_def Let_def io_defs is_completion_def
      split: sum.splits list.splits if_splits)

lemma hybrid_search_calls:
  "\<forall>c\<in>set (fst (hybrid_search w e q l)). \<not> is_completion c"
  using semantic_search_calls [of w e q l] keyword_search_calls [of w e q l]
  by (auto simp add: hybrid_search_def io_defs split: sum.splits prod.splits)

lemma choose_search_calls:
  "\<forall>c\<in>set (fst (choose_search w e q l st)). \<not> is_completion c"
  using semantic_search_calls [of w e q l] keyword_search_calls [of w e q l]
    hybrid_search_calls [of w e q l]
  by (simp add: choose_search_def)

text \<open>
  C5. With no documents the answer composer returns the fixed message and makes no
  external call. When the chosen search returns no item, the response has an empty item
  list and the fixed message as its answer, and no call of the completion function was made.
\<close>

theorem no_documents_response:
  "generate_ai_response w query [] = ([], Inr no_documents_message) \<and>
   (choose_search w user_email query limit stype = (t, Inr []) \<longrightarrow>
      search_and_respond w user_email query limit stype =
        (t, Inr \<lparr>r_query = query, r_search_type = stype, r_documents_found = 0,
                 r_relevant_documents = [], r_ai_response = no_documents_message\<rparr>) \<and>
      (\<forall>c\<in>set t. \<not> is_completion c))"
  using choose_search_calls [of w user_email query limit stype]
  by (auto simp add: search_and_respond_def generate_ai_response_empty io_defs)

theorem no_documents_response_witness:
  "choose_search semantic_empty ''ann@example.org'' ''xyzzyunmatched123'' 10 ''hybrid'' =
     ([UsersSelect ''ann@example.org'', EmbeddingsCreate ''xyzzyunmatched123'',
       MatchDocuments [1, 0] 0.2 10 ''u1'', UsersSelect ''ann@example.org'',
       DocumentsSelect ''u1''], Inr []) \<and>
   search_and_respond semantic_empty ''ann@example.org'' ''xyzzyunmatched123'' 10 ''hybrid'' =
     ([UsersSelect ''ann@example.org'', EmbeddingsCreate ''xyzzyunmatched123'',
       MatchDocuments [1, 0] 0.2 10 ''u1'', UsersSelect ''ann@example.org'',
       DocumentsSelect ''u1''],
      Inr \<lparr>r_query = ''xyzzyunmatched123'', r_search_type = ''hybrid'',
            r_documents_found = 0, r_relevant_documents = [],
            r_ai_response = no_documents_message\<rparr>)"
proof -
  have c: "choose_search semantic_empty ''ann@example.org'' ''xyzzyunmatched123'' 10 ''hybrid'' =
     ([UsersSelect ''ann@example.org'', EmbeddingsCreate ''xyzzyunmatched123'',
       MatchDocuments [1, 0] 0.2 10 ''u1'', UsersSelect ''ann@example.org'',
       DocumentsSelect ''u1''], Inr [])"
    by (simp add: semantic_empty_def budget_note_def search_defs io_defs string_defs field_defs
        fuse_def merge_results_def sort_by_combined_def)
  show ?thesis
    using no_documents_response
      [of semantic_empty "''xyzzyunmatched123''" "''ann@example.org''" 10 "''hybrid''"] c
    by simp
qed

subsection \<open>The lexical score\<close>



subsection \<open>The grounding excerpt of a note\<close>

text \<open>
  C10 (as amended). For every note among the first three documents given to the answer
  composer, the excerpt sent to the generator is built from the note's description
  alone: it is the description, or its first 1000 characters followed by \<open>...\<close> when the
  description is longer; the title occurs in the label only. A token that does not occur
  in the lower-cased description does not occur in the part of the excerpt taken from the
  description either.
\<close>

theorem note_excerpt_from_description:
  assumes "documents \<noteq> []"
    and "context_parts 0 (take 3 documents) = Inr parts"
    and "k < length (take 3 documents)"
    and "get (document_type (documents ! k)) = Some ''note''"
  shows "fst (generate_ai_response w query documents) =
           [ChatCompletionsCreate
              \<lparr>p_context = join [CHR 0x0A, CHR 0x0A] parts, p_question = query\<rparr>] \<and>
         (\<exists>s. get_or (description (documents ! k)) (Some []) = Some s \<and>
              parts ! k = context_label k (documents ! k) ''note'' @ '':'' @ [CHR 0x0A] @
                          (if 1000 < length s then take 1000 s @ ''...'' else s) \<and>
              (\<forall>token. \<not> contains (lower s) token \<longrightarrow>
                        \<not> contains (lower (take 1000 s)) token))"
proof -
  from assms(3) have k: "take 3 documents ! k = documents ! k" by simp
  from context_parts_nth [OF assms(2) assms(3)] k
  have "context_part k (documents ! k) = Inr (parts ! k)" by simp
  from note_context_part [OF this assms(4)]
  obtain s where s: "get_or (description (documents ! k)) (Some []) = Some s"
    "parts ! k = context_label k (documents ! k) ''note'' @ '':'' @ [CHR 0x0A] @
                          (if 1000 < length s then take 1000 s @ ''...'' else s)"
    by blast
  have "\<forall>token. \<not> contains (lower s) token \<longrightarrow> \<not> contains (lower (take 1000 s)) token"
    using contains_take [of 1000 "lower s"] by (auto simp: lower_take)
  with s have "\<exists>s. get_or (description (documents ! k)) (Some []) = Some s \<and>
              parts ! k = context_label k (documents ! k) ''note'' @ '':'' @ [CHR 0x0A] @
                          (if 1000 < length s then take 1000 s @ ''...'' else s) \<and>
              (\<forall>token. \<not> contains (lower s) token \<longrightarrow>
                        \<not> contains (lower (take 1000 s)) token)"
    by (intro exI [of _ s] conjI)
  with generate_ai_response_call [OF assms(1) assms(2), of w query] show ?thesis
    by (intro conjI)
qed

theorem note_excerpt_from_description_witness:
  "context_parts 0 (take 3 [budget_note]) =
     Inr [''Note 1 (Budget Plan):'' @ [CHR 0x0A] @ ''Q3 budget exceeds Q2 budget by 10 percent''] \<and>
   fst (generate_ai_response semantic_down ''plan'' [budget_note]) =
     [ChatCompletionsCreate
        \<lparr>p_context = ''Note 1 (Budget Plan):'' @ [CHR 0x0A] @
                       ''Q3 budget exceeds Q2 budget by 10 percent'',
         p_question = ''plan''\<rparr>] \<and>
   lexical_score (searchable_content budget_note) ''plan'' = 1 \<and>
   \<not> contains (lower ''Q3 budget exceeds Q2 budget by 10 percent'') ''plan'' \<and>
   \<not> contains (lower (take 1000 ''Q3 budget exceeds Q2 budget by 10 percent'')) ''plan''"
proof -
  have p: "context_parts 0 (take 3 [budget_note]) =
     Inr [''Note 1 (Budget Plan):'' @ [CHR 0x0A] @ ''Q3 budget exceeds Q2 budget by 10 percent'']"
    by (simp add: budget_note_def context_part_def context_content_def context_label_def
        context_title_def limit_content_def field_defs string_defs str_nat.simps digit_char_def)
  have n: "get (document_type ([budget_note] ! 0)) = Some ''note''"
    by (simp add: budget_note_def get_def)
  have d: "get_or (description ([budget_note] ! 0)) (Some []) =
     Some ''Q3 budget exceeds Q2 budget by 10 percent''"
    by (simp add: budget_note_def get_or_def)
  have l: "lexical_score (searchable_content budget_note) ''plan'' = 1"
    by (simp add: lexical_score_def budget_note_def searchable_content_def string_defs field_defs)
  have c: "\<not> contains (lower ''Q3 budget exceeds Q2 budget by 10 percent'') ''plan''"
    by (simp add: string_defs)
  from note_excerpt_from_description [of "[budget_note]" _ 0 semantic_down "''plan''", OF _ p _ n] d c
  have "fst (generate_ai_response semantic_down ''plan'' [budget_note]) =
     [ChatCompletionsCreate
        \<lparr>p_context = ''Note 1 (Budget Plan):'' @ [CHR 0x0A] @
                       ''Q3 budget exceeds Q2 budget by 10 percent'',
         p_question = ''plan''\<rparr>] \<and>
     \<not> contains (lower (take 1000 ''Q3 budget exceeds Q2 budget by 10 percent'')) ''plan''"
    by auto
  with p l c show ?thesis by blast
qed

text \<open>
  The claim as first stated (the excerpt never contains the text matched through the title)
  fails where the appended \<open>...\<close> holds the token: the note below matches the query
  \<open>.\<close> through its title only, and its excerpt contains a full stop.
\<close>

theorem note_excerpt_counterexample:
  "lexical_score (searchable_content dotted_note) ''.'' = 1 \<and>
   \<not> contains (lower (replicate 1001 (CHR ''a''))) ''.'' \<and>
   context_part 0 dotted_note =
     Inr (''Note 1 (v1.0 Plan):'' @ [CHR 0x0A] @ replicate 1000 (CHR ''a'') @ ''...'') \<and>
   contains (lower (replicate 1000 (CHR ''a'') @ ''...'')) ''.''"
proof -
  have a: "lower (replicate 1001 (CHR ''a'')) = replicate 1001 (CHR ''a'')"
    by (simp add: string_defs)
  have 1: "lexical_score (searchable_content dotted_note) ''.'' = 1"
    by (simp add: lexical_score_def searchable_content_def dotted_note_def field_defs
        string_defs a [unfolded lower_def lower_char_def upper_letters_def lower_letters_def]
        count_single_absent)
  have 2: "\<not> contains (lower (replicate 1001 (CHR ''a''))) ''.''"
    by (simp add: a contains_single)
  have 3: "context_part 0 dotted_note =
     Inr (''Note 1 (v1.0 Plan):'' @ [CHR 0x0A] @ replicate 1000 (CHR ''a'') @ ''...'')"
    by (simp add: context_part_def context_content_def context_label_def context_title_def
        limit_content_def dotted_note_def field_defs string_defs str_nat.simps digit_char_def)
  have 4: "contains (lower (replicate 1000 (CHR ''a'') @ ''...'')) ''.''"
    by (simp add: contains_single lower_def lower_char_def upper_letters_def lower_letters_def)
  show ?thesis by (intro conjI) (rule 1, rule 2, rule 3, rule 4)
qed


subsection \<open>The combined score of the hybrid search\<close>




subsection \<open>The combined score in the response\<close>

text \<open>
  C6 (as amended). In keyword mode the combined score reported for every returned item is
  its raw relevance score, the lexical score of C2, not normalised (the rows of the
  documents table carry no \<open>combined_score\<close> or \<open>similarity\<close> key). In semantic mode it
  is the similarity the similarity procedure returned with the row (rows that carry no
  \<open>combined_score\<close> or \<open>relevance_score\<close> key).
\<close>

theorem reported_combined_score_by_strategy:
  "(keyword_search w user_email query limit = (t, Inr docs) \<and>
    search_and_respond w user_email query limit ''keyword'' = (t', Inr r) \<and>
    (\<forall>user_id rows. documents_select w user_id = Inr rows \<longrightarrow>
       (\<forall>row\<in>set rows. combined_score row = None \<and> similarity row = None)) \<longrightarrow>
      map s_combined_score (r_relevant_documents r) =
        map (\<lambda>d. real_of_int (relevance_key d)) docs \<and>
      (\<forall>d\<in>set docs. \<exists>row.
          relevance_score d = Some (lexical_score (searchable_content row) query))) \<and>
   (semantic_search w user_email query limit = (t, Inr docs) \<and>
    search_and_respond w user_email query limit ''semantic'' = (t', Inr r) \<and>
    (\<forall>d\<in>set docs. combined_score d = None \<and> relevance_score d = None) \<longrightarrow>
      map s_combined_score (r_relevant_documents r) = map similarity_of docs)"
proof (intro conjI impI; elim conjE)
  assume k: "keyword_search w user_email query limit = (t, Inr docs)"
    and s: "search_and_respond w user_email query limit ''keyword'' = (t', Inr r)"
    and rows: "\<forall>user_id rows. documents_select w user_id = Inr rows \<longrightarrow>
       (\<forall>row\<in>set rows. combined_score row = None \<and> similarity row = None)"
  from search_and_respond_items [OF s] k
  have "summaries docs = Inr (r_relevant_documents r)" by (simp add: choose_keyword)
  from summaries_combined [OF this] keyword_reported [OF k rows]
  show "map s_combined_score (r_relevant_documents r) =
        map (\<lambda>d. real_of_int (relevance_key d)) docs"
    by simp
  from keyword_reported [OF k rows]
  show "\<forall>d\<in>set docs. \<exists>row.
          relevance_score d = Some (lexical_score (searchable_content row) query)"
    by blast
next
  assume k: "semantic_search w user_email query limit = (t, Inr docs)"
    and s: "search_and_respond w user_email query limit ''semantic'' = (t', Inr r)"
    and rows: "\<forall>d\<in>set docs. combined_score d = None \<and> relevance_score d = None"
  from search_and_respond_items [OF s] k
  have "summaries docs = Inr (r_relevant_documents r)" by (simp add: choose_semantic)
  from summaries_combined [OF this] rows
  show "map s_combined_score (r_relevant_documents r) = map similarity_of docs"
    by (auto simp: reported_combined_score_def similarity_of_def split: option.splits)
qed

theorem reported_combined_score_by_strategy_witness:
  "map s_combined_score
     (r_relevant_documents
        \<lparr>r_query = ''budget'', r_search_type = ''keyword'', r_documents_found = 1,
         r_relevant_documents =
           [\<lparr>s_id = ''n1'', s_title = Some ''Budget Plan'', s_document_type = Some ''note'',
              s_filename = None, s_semantic_score = 0, s_keyword_score = 0,
              s_combined_score = 3, s_search_type = ''unknown'',
              s_preview = ''Q3 budget exceeds Q2 budget by 10 percent''\<rparr>],
         r_ai_response = ''The budget grows by 10 percent.''\<rparr>) =
     map (\<lambda>d. real_of_int (relevance_key d)) [budget_note\<lparr>relevance_score := Some 3\<rparr>] \<and>
   map s_combined_score
     (r_relevant_documents
        \<lparr>r_query = ''budget'', r_search_type = ''semantic'', r_documents_found = 1,
         r_relevant_documents =
           [\<lparr>s_id = ''n1'', s_title = Some ''Budget Plan'', s_document_type = Some ''note'',
              s_filename = None, s_semantic_score = 0, s_keyword_score = 0,
              s_combined_score = 0.5, s_search_type = ''unknown'',
              s_preview = ''Q3 budget exceeds Q2 budget by 10 percent''\<rparr>],
         r_ai_response = ''The budget grows by 10 percent.''\<rparr>) =
     map similarity_of [budget_note\<lparr>similarity := Some 0.5\<rparr>]"
proof -
  have sem_rows: "\<forall>d\<in>set [budget_note\<lparr>similarity := Some 0.5\<rparr>].
      combined_score d = None \<and> relevance_score d = None"
    by (simp add: budget_note_def)
  note k = reported_combined_score_by_strategy [THEN conjunct1, rule_format,
      OF conjI [OF semantic_up_keyword conjI [OF semantic_up_respond_keyword semantic_up_rows]],
      THEN conjunct1]
  note s = reported_combined_score_by_strategy [THEN conjunct2, rule_format,
      OF conjI [OF semantic_up_semantic conjI [OF semantic_up_respond_semantic sem_rows]]]
  show ?thesis by (rule conjI [OF k s])
qed

text \<open>
  The claim as first stated has \<open>min (lexical_score / 100) 1\<close> as the combined score in
  keyword mode: the note has lexical score 3 and the response reports 3, not 0.03.
\<close>

theorem keyword_combined_score_counterexample:
  "snd (search_and_respond semantic_up ''ann@example.org'' ''budget'' 10 ''keyword'') =
     Inr \<lparr>r_query = ''budget'', r_search_type = ''keyword'', r_documents_found = 1,
           r_relevant_documents =
             [\<lparr>s_id = ''n1'', s_title = Some ''Budget Plan'', s_document_type = Some ''note'',
                s_filename = None, s_semantic_score = 0, s_keyword_score = 0,
                s_combined_score = 3, s_search_type = ''unknown'',
                s_preview = ''Q3 budget exceeds Q2 budget by 10 percent''\<rparr>],
           r_ai_response = ''The budget grows by 10 percent.''\<rparr> \<and>
   lexical_score (searchable_content budget_note) ''budget'' = 3 \<and>
   (3 :: real) \<noteq> min (3 / 100) 1"
  by (simp add: semantic_up_respond_keyword)
     (simp add: lexical_score_def budget_note_def searchable_content_def string_defs field_defs)


subsection \<open>The limit of a search\<close>

text \<open>
  C7 (as amended). The search operation does not validate \<open>limit\<close>: whatever the limit,
  positive or not, the search starts with the external lookup of the user, and the only
  error it raises is the status 500 wrapper of a failure further down; there is no
  validation error. A call without a limit uses the default 10.
\<close>

theorem search_limit_not_validated:
  "search_documents_get w user_email q None stype =
     search_documents_get w user_email q (Some 10) stype \<and>
   (\<exists>t. fst (search_documents_get w user_email q (Some limit) stype) =
          UsersSelect user_email # t) \<and>
   (\<forall>err. snd (search_documents_get w user_email q (Some limit) stype) = Inl err \<longrightarrow>
      (\<exists>cause. err = HTTPException 500 ''Search and response failed: '' (Some cause)))"
  using search_and_respond_first search_and_respond_error
  by (simp add: search_documents_get_def)

theorem search_limit_not_validated_witness:
  "fst (search_documents_get semantic_down ''ann@example.org'' ''budget'' (Some 0)
          (Some ''semantic'')) =
     UsersSelect ''ann@example.org'' # [EmbeddingsCreate ''budget''] \<and>
   snd (search_documents_get semantic_down ''ann@example.org'' ''budget'' (Some 0)
          (Some ''semantic'')) =
     Inl (HTTPException 500 ''Search and response failed: ''
            (Some (HTTPException 500 ''Failed to generate embedding: ''
                     (Some (OpenAIError ''connection refused''))))) \<and>
   search_documents_get semantic_down ''ann@example.org'' ''budget'' None (Some ''semantic'') =
     search_documents_get semantic_down ''ann@example.org'' ''budget'' (Some 10)
       (Some ''semantic'')"
  using search_limit_not_validated
    [of semantic_down "''ann@example.org''" "''budget''" "Some ''semantic''" 0]
  by (simp add: search_documents_get_def semantic_down_respond_semantic)

text \<open>
  The claim as first stated has a non-positive limit rejected before any external call:
  with limit 0 the search calls the users table, the embedding model, the similarity
  procedure and the documents table, and answers with an empty result.
\<close>

theorem limit_validation_counterexample:
  "search_documents_get semantic_up ''ann@example.org'' ''budget'' (Some 0) None =
     ([UsersSelect ''ann@example.org'', EmbeddingsCreate ''budget'',
       MatchDocuments [1, 0] 0.2 0 ''u1'', UsersSelect ''ann@example.org'',
       DocumentsSelect ''u1''],
      Inr \<lparr>r_query = ''budget'', r_search_type = ''hybrid'', r_documents_found = 0,
            r_relevant_documents = [], r_ai_response = no_documents_message\<rparr>)"
proof -
  have k: "keyword_search semantic_up ''ann@example.org'' ''budget'' 0 =
     ([UsersSelect ''ann@example.org'', DocumentsSelect ''u1''], Inr [])"
    by (simp add: semantic_up_def budget_note_def search_defs io_defs)
  have h: "hybrid_search semantic_up ''ann@example.org'' ''budget'' 0 =
     ([UsersSelect ''ann@example.org'', EmbeddingsCreate ''budget'',
       MatchDocuments [1, 0] 0.2 0 ''u1'', UsersSelect ''ann@example.org'',
       DocumentsSelect ''u1''], Inr [])"
    by (simp add: hybrid_search_def semantic_up_semantic k io_defs fuse_def slice_to_def)
  show ?thesis
    by (simp add: search_documents_get_def search_and_respond_def choose_search_def h
        generate_ai_response_def io_defs)
qed

subsection \<open>The comparison of the three strategies\<close>

text \<open>
  C4 (as amended). The compare operation runs the three strategies in the order semantic,
  keyword, hybrid inside one handler: when the semantic strategy fails, the comparison
  fails at once with one status 500 error that wraps the failure, and the other two are
  not run. It returns a comparison exactly when all three strategies succeed.
\<close>

theorem compare_aborts_on_first_failure:
  "(search_and_respond w user_email q n ''semantic'' = (t, Inl err) \<longrightarrow>
      compare_search_types w user_email q (Some n) =
        (t, Inl (HTTPException 500 ''Search comparison failed: '' (Some err)))) \<and>
   ((\<exists>r. snd (compare_search_types w user_email q (Some n)) = Inr r) \<longleftrightarrow>
    (\<exists>a b c. snd (search_and_respond w user_email q n ''semantic'') = Inr a \<and>
             snd (search_and_respond w user_email q n ''keyword'') = Inr b \<and>
             snd (search_and_respond w user_email q n ''hybrid'') = Inr c))"
  by (cases "search_and_respond w user_email q n ''semantic''";
      cases "search_and_respond w user_email q n ''keyword''";
      cases "search_and_respond w user_email q n ''hybrid''")
     (auto simp: compare_search_types_def io_defs split: sum.splits)

theorem compare_aborts_on_first_failure_witness:
  "search_and_respond semantic_down ''ann@example.org'' ''budget'' 5 ''semantic'' =
     ([UsersSelect ''ann@example.org'', EmbeddingsCreate ''budget''],
      Inl (HTTPException 500 ''Search and response failed: ''
             (Some (HTTPException 500 ''Failed to generate embedding: ''
                      (Some (OpenAIError ''connection refused'')))))) \<and>
   compare_search_types semantic_down ''ann@example.org'' ''budget'' (Some 5) =
     ([UsersSelect ''ann@example.org'', EmbeddingsCreate ''budget''],
      Inl (HTTPException 500 ''Search comparison failed: ''
             (Some (HTTPException 500 ''Search and response failed: ''
                      (Some (HTTPException 500 ''Failed to generate embedding: ''
                               (Some (OpenAIError ''connection refused''))))))))"
  using compare_aborts_on_first_failure
    [of semantic_down "''ann@example.org''" "''budget''" 5
        "[UsersSelect ''ann@example.org'', EmbeddingsCreate ''budget'']"
        "HTTPException 500 ''Search and response failed: ''
             (Some (HTTPException 500 ''Failed to generate embedding: ''
                      (Some (OpenAIError ''connection refused''))))"]
    semantic_down_respond_semantic [of 5]
  by simp

text \<open>
  The claim as first stated has the keyword and the hybrid strategy complete when the
  semantic backend is down. Each of them succeeds on its own, but the comparison fails
  after the two calls of the semantic strategy, with a single error.
\<close>

theorem compare_isolation_counterexample:
  "compare_search_types semantic_down ''ann@example.org'' ''budget'' None =
     ([UsersSelect ''ann@example.org'', EmbeddingsCreate ''budget''],
      Inl (HTTPException 500 ''Search comparison failed: ''
             (Some (HTTPException 500 ''Search and response failed: ''
                      (Some (HTTPException 500 ''Failed to generate embedding: ''
                               (Some (OpenAIError ''connection refused'')))))))) \<and>
   snd (search_and_respond semantic_down ''ann@example.org'' ''budget'' 5 ''keyword'') =
     Inr \<lparr>r_query = ''budget'', r_search_type = ''keyword'', r_documents_found = 1,
           r_relevant_documents =
             [\<lparr>s_id = ''n1'', s_title = Some ''Budget Plan'', s_document_type = Some ''note'',
                s_filename = None, s_semantic_score = 0, s_keyword_score = 0,
                s_combined_score = 3, s_search_type = ''unknown'',
                s_preview = ''Q3 budget exceeds Q2 budget by 10 percent''\<rparr>],
           r_ai_response = ''The budget grows by 10 percent.''\<rparr> \<and>
   snd (search_and_respond semantic_down ''ann@example.org'' ''budget'' 5 ''hybrid'') =
     Inr \<lparr>r_query = ''budget'', r_search_type = ''hybrid'', r_documents_found = 1,
           r_relevant_documents =
             [\<lparr>s_id = ''n1'', s_title = Some ''Budget Plan'', s_document_type = Some ''note'',
                s_filename = None, s_semantic_score = 0, s_keyword_score = 0,
                s_combined_score = 3, s_search_type = ''unknown'',
                s_preview = ''Q3 budget exceeds Q2 budget by 10 percent''\<rparr>],
           r_ai_response = ''The budget grows by 10 percent.''\<rparr>"
  by (simp add: compare_search_types_def semantic_down_respond_semantic
      semantic_down_respond_keyword5 semantic_down_respond_hybrid5 io_defs)


end
